theory Spec2Isabelle
  imports Complex_Main "HOL-Library.Char_ord" "HOL-Library.List_Lexorder"
    "HOL-Library.Multiset"
begin

section \<open>Utterance classification with a linear SVC: the notebook's two functions\<close>

text \<open>
  The notebook \<^verbatim>\<open>sklearn.svm.LinearSVC.ipynb\<close> defines \<^verbatim>\<open>train_linear_svc_model\<close>
  and \<^verbatim>\<open>classify_utterance\<close>. Both are glue around pandas, scikit-learn and pickle.
  The glue is modelled as written. Of the libraries, the discrete, documented behaviour
  is modelled (the types pandas gives the columns, sizes of the split, tokenisation,
  vocabulary, term counts, the label set of the classifier, the choice of the predicted
  label, files), and what only the libraries can compute is a parameter of the model,
  collected in the record \<open>numerics\<close>: what \<^verbatim>\<open>float\<close> makes of a string, the permutation
  that \<^verbatim>\<open>RandomState(seed)\<close> draws, the tf-idf weights and the coefficients that liblinear
  computes. Weights are real numbers here; the rounding of floating point is not modelled.
  Strings are ASCII text.
\<close>

subsection \<open>Data\<close>

record training_example =
  intent :: string
  utterance :: string

text \<open>What \<^verbatim>\<open>float(s)\<close> gives for a string, as far as the conversion of a column needs
  it: \<open>Whole k r\<close> is a float that is the integer \<open>k\<close>, is unchanged by the round trip
  through \<^verbatim>\<open>int64\<close>, and is printed as \<open>r\<close> by \<^verbatim>\<open>str\<close>; \<open>Fraction\<close> is any other float
  (not an integer, \<^verbatim>\<open>nan\<close>, \<^verbatim>\<open>inf\<close>, out of range).\<close>

datatype parsed = Whole int string | Fraction

text \<open>A column of a data frame with its type: strings (\<^verbatim>\<open>object\<close>), \<^verbatim>\<open>int64\<close> or
  \<^verbatim>\<open>float64\<close>.\<close>

datatype series = ObjectSeries "string list" | Int64Series "int list" | Float64Series "parsed list"

type_synonym data_frame = "(string \<times> series) list"

text \<open>A label of the classifier: a string, an integer, or a float that is an integer
  (with what \<^verbatim>\<open>str\<close> prints for it).\<close>

datatype label = StrLabel string | IntLabel int | FloatLabel int string

text \<open>A fitted \<^verbatim>\<open>CountVectorizer\<close>: the sorted vocabulary (the attribute
  \<^verbatim>\<open>vocabulary_\<close>); a term's column is its position.\<close>

record count_vectorizer =
  vocabulary :: "string list"

text \<open>A fitted \<^verbatim>\<open>LinearSVC\<close>: the sorted labels, one row of weights per decision
  function, and the intercepts (the attributes \<^verbatim>\<open>classes_\<close>, \<^verbatim>\<open>coef_\<close>, \<^verbatim>\<open>intercept_\<close>).\<close>

record linear_svc =
  classes :: "label list"
  coef :: "real list list"
  intercept :: "real list"

datatype py_object = Vectorizer count_vectorizer | Classifier linear_svc

text \<open>What a path of the file system can hold: a directory, a JSON array of examples
  with both fields, a pickled object, or bytes that are neither JSON nor a pickle.\<close>

datatype file_content = Directory | JsonArray "training_example list" | Pickled py_object | OtherData

datatype py_exception =
  KeyError | ValueError | IndexError | AttributeError
  | FileNotFoundError | IsADirectoryError | UnpicklingError

text \<open>The classes an exception is an instance of, by name, most specific first (the
  method resolution order of the built-in class, without \<^verbatim>\<open>object\<close>).\<close>

fun mro :: "py_exception \<Rightarrow> string list" where
  "mro KeyError = [''KeyError'', ''LookupError'', ''Exception'', ''BaseException'']"
| "mro IndexError = [''IndexError'', ''LookupError'', ''Exception'', ''BaseException'']"
| "mro ValueError = [''ValueError'', ''Exception'', ''BaseException'']"
| "mro AttributeError = [''AttributeError'', ''Exception'', ''BaseException'']"
| "mro FileNotFoundError = [''FileNotFoundError'', ''OSError'', ''Exception'', ''BaseException'']"
| "mro IsADirectoryError = [''IsADirectoryError'', ''OSError'', ''Exception'', ''BaseException'']"
| "mro UnpicklingError = [''UnpicklingError'', ''PickleError'', ''Exception'', ''BaseException'']"

text \<open>The part of the process state the two functions touch: the files, the text printed
  so far, and the values that numpy's global generator will hand out next, \<open>np_random w k\<close>
  being the one after \<open>k\<close> draws
  (\<^verbatim>\<open>LinearSVC()\<close> is built without \<^verbatim>\<open>random_state\<close> and seeds liblinear from it).\<close>

record world =
  fs :: "string \<Rightarrow> file_content option"
  stdout :: "string list"
  np_random :: "nat \<Rightarrow> nat"

text \<open>What only the libraries compute, as parameters.
  \<open>py_float s\<close> is \<^verbatim>\<open>float(s)\<close>, \<open>None\<close> when it raises \<^verbatim>\<open>ValueError\<close>;
  \<open>permutation seed n\<close> is \<^verbatim>\<open>RandomState(seed).permutation(n)\<close>;
  \<open>tfidf_weight C i j\<close> is the tf-idf weight of cell \<open>(i, j)\<close> of the count matrix \<open>C\<close>;
  \<open>train_wrap X y seed r c\<close> is entry \<open>(r, c)\<close> of the raw coefficient matrix that liblinear
  returns for features \<open>X\<close>, encoded labels \<open>y\<close> and the seed; its last column is the bias.\<close>

record numerics =
  py_float :: "string \<Rightarrow> parsed option"
  permutation :: "nat \<Rightarrow> nat \<Rightarrow> nat list"
  tfidf_weight :: "nat list list \<Rightarrow> nat \<Rightarrow> nat \<Rightarrow> real"
  train_wrap :: "real list list \<Rightarrow> nat list \<Rightarrow> nat \<Rightarrow> nat \<Rightarrow> nat \<Rightarrow> real"

subsection \<open>Files: \<^verbatim>\<open>pd.read_json\<close>, \<^verbatim>\<open>pickle.dump\<close>, \<^verbatim>\<open>pickle.load\<close>\<close>

fun whole :: "parsed \<Rightarrow> (int \<times> string) option" where
  "whole (Whole k r) = Some (k, r)"
| "whole Fraction = None"

text \<open>The type pandas infers for a column of JSON strings (\<^verbatim>\<open>dtype=True\<close> is the default
  of \<^verbatim>\<open>read_json\<close>): the column is converted to \<^verbatim>\<open>float64\<close> if \<^verbatim>\<open>float\<close> accepts every
  value, and then to \<^verbatim>\<open>int64\<close> if every float is an integer that the conversion leaves
  unchanged; otherwise it stays a column of strings.\<close>

definition try_convert_data :: "numerics \<Rightarrow> string list \<Rightarrow> series" where
  "try_convert_data lib xs =
     (case those (map (py_float lib) xs) of
        None \<Rightarrow> ObjectSeries xs
      | Some vs \<Rightarrow>
          (case those (map whole vs) of
             None \<Rightarrow> Float64Series vs
           | Some krs \<Rightarrow> Int64Series (map fst krs)))"

text \<open>\<^verbatim>\<open>pd.read_json(path)\<close>: an array of examples gives a frame with the two columns,
  an empty array a frame without columns. A path that names no file raises
  \<^verbatim>\<open>FileNotFoundError\<close> (\<^verbatim>\<open>ValueError\<close> in older versions of pandas, which take the path
  for JSON text); bytes that are not JSON raise \<^verbatim>\<open>ValueError\<close>.\<close>

definition read_json :: "numerics \<Rightarrow> world \<Rightarrow> string \<Rightarrow> py_exception + data_frame" where
  "read_json lib w path =
     (case fs w path of
        None \<Rightarrow> Inl FileNotFoundError
      | Some Directory \<Rightarrow> Inl IsADirectoryError
      | Some (JsonArray rows) \<Rightarrow>
          Inr (if rows = [] then []
               else [(''intent'', try_convert_data lib (map intent rows)),
                     (''utterance'', try_convert_data lib (map utterance rows))])
      | Some _ \<Rightarrow> Inl ValueError)"

text \<open>\<^verbatim>\<open>df[name]\<close>\<close>

definition frame_getitem :: "data_frame \<Rightarrow> string \<Rightarrow> py_exception + series" where
  "frame_getitem df name = (case map_of df name of None \<Rightarrow> Inl KeyError | Some s \<Rightarrow> Inr s)"

text \<open>\<^verbatim>\<open>pickle.dump(obj, open(path, 'wb'))\<close>: opening creates or truncates the file,
  the dump fills it.\<close>

definition pickle_dump :: "py_object \<Rightarrow> string \<Rightarrow> world \<Rightarrow> world \<times> (py_exception + unit)" where
  "pickle_dump obj path w =
     (case fs w path of
        Some Directory \<Rightarrow> (w, Inl IsADirectoryError)
      | _ \<Rightarrow> (w\<lparr>fs := (fs w)(path \<mapsto> Pickled obj)\<rparr>, Inr ()))"

text \<open>\<^verbatim>\<open>pickle.load(open(path, 'rb'))\<close>\<close>

definition pickle_load :: "world \<Rightarrow> string \<Rightarrow> py_exception + py_object" where
  "pickle_load w path =
     (case fs w path of
        None \<Rightarrow> Inl FileNotFoundError
      | Some Directory \<Rightarrow> Inl IsADirectoryError
      | Some (Pickled obj) \<Rightarrow> Inr obj
      | Some _ \<Rightarrow> Inl UnpicklingError)"

definition print :: "string \<Rightarrow> world \<Rightarrow> world" where
  "print s w = w\<lparr>stdout := stdout w @ [s]\<rparr>"

subsection \<open>\<^verbatim>\<open>train_test_split\<close>\<close>

text \<open>With neither size given the held-out share is 0.25: \<open>n_test = ceil(0.25 * n)\<close>,
  \<open>n_train = n - n_test\<close>, and an empty training set is an error.\<close>

definition n_test :: "nat \<Rightarrow> nat" where
  "n_test n = (n + 3) div 4"

definition n_train :: "nat \<Rightarrow> nat" where
  "n_train n = n - n_test n"

definition validate_shuffle_split :: "nat \<Rightarrow> py_exception + (nat \<times> nat)" where
  "validate_shuffle_split n =
     (if n_train n = 0 then Inl ValueError else Inr (n_train n, n_test n))"

definition safe_indexing :: "'a list \<Rightarrow> nat list \<Rightarrow> py_exception + 'a list" where
  "safe_indexing xs idx =
     (if list_all (\<lambda>i. i < length xs) idx then Inr (map (\<lambda>i. xs ! i) idx) else Inl IndexError)"

fun series_length :: "series \<Rightarrow> nat" where
  "series_length (ObjectSeries xs) = length xs"
| "series_length (Int64Series ks) = length ks"
| "series_length (Float64Series vs) = length vs"

text \<open>Indexing a column by positions keeps its type.\<close>

fun series_take :: "series \<Rightarrow> nat list \<Rightarrow> py_exception + series" where
  "series_take (ObjectSeries xs) idx =
     (case safe_indexing xs idx of Inl e \<Rightarrow> Inl e | Inr ys \<Rightarrow> Inr (ObjectSeries ys))"
| "series_take (Int64Series ks) idx =
     (case safe_indexing ks idx of Inl e \<Rightarrow> Inl e | Inr ys \<Rightarrow> Inr (Int64Series ys))"
| "series_take (Float64Series vs) idx =
     (case safe_indexing vs idx of Inl e \<Rightarrow> Inl e | Inr ys \<Rightarrow> Inr (Float64Series ys))"

text \<open>\<^verbatim>\<open>train_test_split(X, y, random_state=seed)\<close>: the held-out indices are the first
  \<open>n_test\<close> of the permutation drawn with the seed, the training indices the next
  \<open>n_train\<close>. The result is \<open>(X_train, X_test, y_train, y_test)\<close>.\<close>

definition train_test_split ::
  "numerics \<Rightarrow> nat \<Rightarrow> series \<Rightarrow> series
    \<Rightarrow> py_exception + (series \<times> series \<times> series \<times> series)" where
  "train_test_split lib random_state X y =
     (if series_length y \<noteq> series_length X then Inl ValueError
      else case validate_shuffle_split (series_length X) of
        Inl e \<Rightarrow> Inl e
      | Inr (ntr, nte) \<Rightarrow>
          (let perm = permutation lib random_state (series_length X);
               ind_test = take nte perm;
               ind_train = take ntr (drop nte perm)
           in case series_take X ind_train of Inl e \<Rightarrow> Inl e | Inr X_train \<Rightarrow>
              case series_take X ind_test of Inl e \<Rightarrow> Inl e | Inr X_test \<Rightarrow>
              case series_take y ind_train of Inl e \<Rightarrow> Inl e | Inr y_train \<Rightarrow>
              case series_take y ind_test of Inl e \<Rightarrow> Inl e | Inr y_test \<Rightarrow>
                Inr (X_train, X_test, y_train, y_test)))"

subsection \<open>\<^verbatim>\<open>CountVectorizer\<close>\<close>

text \<open>The default analyzer lowercases, then takes the matches of
  \<^verbatim>\<open>(?u)\b\w\w+\b\<close>: the maximal runs of word characters of length at least two.\<close>

definition word_char :: "char \<Rightarrow> bool" where
  "word_char c =
     ((CHR ''a'' \<le> c \<and> c \<le> CHR ''z'') \<or> (CHR ''A'' \<le> c \<and> c \<le> CHR ''Z'')
      \<or> (CHR ''0'' \<le> c \<and> c \<le> CHR ''9'') \<or> c = CHR ''_'')"

definition lower :: "char \<Rightarrow> char" where
  "lower c = (if CHR ''A'' \<le> c \<and> c \<le> CHR ''Z'' then char_of (of_char c + (32::nat)) else c)"

fun word_runs :: "string \<Rightarrow> string \<Rightarrow> string list" where
  "word_runs cur [] = (if cur = [] then [] else [rev cur])"
| "word_runs cur (c # cs) =
     (if word_char c then word_runs (c # cur) cs
      else if cur = [] then word_runs [] cs
      else rev cur # word_runs [] cs)"

definition analyze :: "string \<Rightarrow> string list" where
  "analyze doc = filter (\<lambda>t. 2 \<le> length t) (word_runs [] (map lower doc))"

text \<open>\<^verbatim>\<open>transform\<close>: one row per document, one count per vocabulary term; a token that
  is not in the vocabulary is dropped.\<close>

definition transform :: "count_vectorizer \<Rightarrow> string list \<Rightarrow> nat list list" where
  "transform v docs = map (\<lambda>d. map (\<lambda>t. count_list (analyze d) t) (vocabulary v)) docs"

text \<open>\<^verbatim>\<open>fit_transform\<close>: the vocabulary is the sorted set of tokens of the documents;
  an empty vocabulary is an error. A document that is a number has no \<^verbatim>\<open>lower\<close>.\<close>

definition fit_transform ::
  "series \<Rightarrow> py_exception + (count_vectorizer \<times> nat list list)" where
  "fit_transform raw_documents =
     (case raw_documents of
        ObjectSeries docs \<Rightarrow>
          (let vocab = sort (remdups (concat (map analyze docs)))
           in if vocab = [] then Inl ValueError
              else Inr (\<lparr>vocabulary = vocab\<rparr>, transform \<lparr>vocabulary = vocab\<rparr> docs))
      | _ \<Rightarrow> (if series_length raw_documents = 0 then Inl ValueError else Inl AttributeError))"

subsection \<open>\<^verbatim>\<open>TfidfTransformer\<close>\<close>

text \<open>The result has the shape of the counts; the weights are the library's.\<close>

definition tfidf_fit_transform :: "numerics \<Rightarrow> nat list list \<Rightarrow> real list list" where
  "tfidf_fit_transform lib C =
     map (\<lambda>i. map (\<lambda>j. tfidf_weight lib C i j) [0..<length (C ! i)]) [0..<length C]"

subsection \<open>\<^verbatim>\<open>LinearSVC\<close>\<close>

definition n_cols :: "'a list list \<Rightarrow> nat" where
  "n_cols X = (case X of [] \<Rightarrow> 0 | r # _ \<Rightarrow> length r)"

definition randint :: "world \<Rightarrow> nat \<times> world" where
  "randint w = (np_random w 0, w\<lparr>np_random := (\<lambda>k. np_random w (Suc k))\<rparr>)"

fun index_of :: "'a list \<Rightarrow> 'a \<Rightarrow> nat" where
  "index_of [] x = 0"
| "index_of (c # cs) x = (if c = x then 0 else Suc (index_of cs x))"

text \<open>The labels of a column and their codes: the sorted distinct values
  (\<^verbatim>\<open>np.unique\<close>) and, for each element, the position of its value among them. Strings
  are sorted as strings, numbers as numbers. Floats are labels only if each is an
  integer; otherwise the target is rejected as continuous or not finite.\<close>

fun encode_labels :: "series \<Rightarrow> (label list \<times> nat list) option" where
  "encode_labels (ObjectSeries ys) =
     (let cs = sort (remdups ys) in Some (map StrLabel cs, map (index_of cs) ys))"
| "encode_labels (Int64Series ks) =
     (let cs = sort (remdups ks) in Some (map IntLabel cs, map (index_of cs) ks))"
| "encode_labels (Float64Series vs) =
     (case those (map whole vs) of
        None \<Rightarrow> None
      | Some krs \<Rightarrow>
          (let cs = sort_key fst (remdups krs)
           in Some (map (\<lambda>(k, r). FloatLabel k r) cs, map (index_of cs) krs)))"

text \<open>\<^verbatim>\<open>LinearSVC().fit(X, y)\<close>: the labels are the sorted distinct values of \<open>y\<close>; fewer
  than two is an error; liblinear is seeded from the global generator; for two labels
  there is one row of coefficients, otherwise one per label; the last raw column is the
  intercept.\<close>

definition fit :: "numerics \<Rightarrow> real list list \<Rightarrow> series \<Rightarrow> world
    \<Rightarrow> world \<times> (py_exception + linear_svc)" where
  "fit lib X y w =
     (case encode_labels y of
        None \<Rightarrow> (w, Inl ValueError)
      | Some (labels, y_ind) \<Rightarrow>
          if length labels < 2 then (w, Inl ValueError)
          else
            (let (seed, w') = randint w;
                 n_features = n_cols X;
                 rows = (if length labels = 2 then 1 else length labels);
                 raw = train_wrap lib X y_ind seed
             in (w', Inr \<lparr>classes = labels,
                          coef = map (\<lambda>r. map (\<lambda>c. raw r c) [0..<n_features]) [0..<rows],
                          intercept = map (\<lambda>r. raw r n_features) [0..<rows]\<rparr>)))"

definition dot :: "real list \<Rightarrow> nat list \<Rightarrow> real" where
  "dot ws x = sum_list (map (\<lambda>(a, b). a * real b) (zip ws x))"

text \<open>\<^verbatim>\<open>decision_function\<close> for one row: the number of features must be that of the
  coefficients.\<close>

definition decision_function :: "linear_svc \<Rightarrow> nat list \<Rightarrow> py_exception + real list" where
  "decision_function m x =
     (if length x \<noteq> n_cols (coef m) then Inl ValueError
      else Inr (map (\<lambda>(ws, b). dot ws x + b) (zip (coef m) (intercept m))))"

text \<open>\<^verbatim>\<open>argmax\<close>: the first position of the greatest score.\<close>

fun argmax_from :: "nat \<Rightarrow> real \<Rightarrow> nat \<Rightarrow> real list \<Rightarrow> nat" where
  "argmax_from best bv i [] = best"
| "argmax_from best bv i (s # ss) =
     (if bv < s then argmax_from i s (Suc i) ss else argmax_from best bv (Suc i) ss)"

definition argmax :: "real list \<Rightarrow> nat" where
  "argmax ss = (case ss of [] \<Rightarrow> 0 | s # rest \<Rightarrow> argmax_from 0 s 1 rest)"

definition getitem :: "'a list \<Rightarrow> nat \<Rightarrow> py_exception + 'a" where
  "getitem xs i = (if i < length xs then Inr (xs ! i) else Inl IndexError)"

text \<open>\<^verbatim>\<open>predict\<close> for one row: with a single decision function the label is the second
  one when the score is positive and the first one otherwise; with several, the label
  of the greatest score.\<close>

definition predict_row :: "linear_svc \<Rightarrow> nat list \<Rightarrow> py_exception + label" where
  "predict_row m x =
     (case decision_function m x of
        Inl e \<Rightarrow> Inl e
      | Inr scores \<Rightarrow>
          getitem (classes m)
            (if length scores = 1 then (if 0 < hd scores then 1 else 0) else argmax scores))"

fun predict :: "linear_svc \<Rightarrow> nat list list \<Rightarrow> py_exception + label list" where
  "predict m [] = Inr []"
| "predict m (x # xs) =
     (case predict_row m x of
        Inl e \<Rightarrow> Inl e
      | Inr l \<Rightarrow> (case predict m xs of Inl e \<Rightarrow> Inl e | Inr ls \<Rightarrow> Inr (l # ls)))"

text \<open>\<^verbatim>\<open>str\<close> of a label: a string is itself, an integer is printed in decimal.\<close>

definition digit_char :: "nat \<Rightarrow> char" where
  "digit_char d = char_of (of_char CHR ''0'' + d)"

fun str_nat :: "nat \<Rightarrow> string" where
  "str_nat n = (if n < 10 then [digit_char n] else str_nat (n div 10) @ [digit_char (n mod 10)])"

definition str_int :: "int \<Rightarrow> string" where
  "str_int i = (if i < 0 then CHR ''-'' # str_nat (nat (- i)) else str_nat (nat i))"

fun str_label :: "label \<Rightarrow> string" where
  "str_label (StrLabel s) = s"
| "str_label (IntLabel k) = str_int k"
| "str_label (FloatLabel k r) = r"

subsection \<open>\<^verbatim>\<open>train_linear_svc_model\<close>\<close>

definition clf_model_vectorizer_pickle_file :: string where
  "clf_model_vectorizer_pickle_file = ''model_vectorizer.pickle''"

definition clf_model_file :: string where
  "clf_model_file = ''classification.model''"

text \<open>The first two statements of the \<^verbatim>\<open>try\<close> block: the frame is read and its two
  columns are split, with the literal \<^verbatim>\<open>random_state=0\<close> and no size given.\<close>

definition training_split ::
  "numerics \<Rightarrow> world \<Rightarrow> string \<Rightarrow> py_exception + (series \<times> series \<times> series \<times> series)" where
  "training_split lib w path =
     (case read_json lib w path of Inl e \<Rightarrow> Inl e | Inr df \<Rightarrow>
      case frame_getitem df ''utterance'' of Inl e \<Rightarrow> Inl e | Inr X \<Rightarrow>
      case frame_getitem df ''intent'' of Inl e \<Rightarrow> Inl e | Inr y \<Rightarrow>
        train_test_split lib 0 X y)"

text \<open>The body of the \<^verbatim>\<open>try\<close> block: the world it leaves and whether it raised.\<close>

definition train_body :: "numerics \<Rightarrow> world \<Rightarrow> string \<Rightarrow> world \<times> (py_exception + unit)" where
  "train_body lib w path =
     (case training_split lib w path of Inl e \<Rightarrow> (w, Inl e)
      | Inr (X_train, X_test, y_train, y_test) \<Rightarrow>
      case fit_transform X_train of Inl e \<Rightarrow> (w, Inl e)
      | Inr (count_vect, X_train_counts) \<Rightarrow>
      let X_train_tfidf = tfidf_fit_transform lib X_train_counts
      in case fit lib X_train_tfidf y_train w of (w1, Inl e) \<Rightarrow> (w1, Inl e)
      | (w1, Inr model) \<Rightarrow>
      case pickle_dump (Vectorizer count_vect) clf_model_vectorizer_pickle_file w1 of
        (w2, Inl e) \<Rightarrow> (w2, Inl e)
      | (w2, Inr u) \<Rightarrow>
      case pickle_dump (Classifier model) clf_model_file w2 of
        (w3, Inl e) \<Rightarrow> (w3, Inl e)
      | (w3, Inr u) \<Rightarrow>
        (print ''Classification model saved to the current directory''
          (print ''Vectorizer model saved to the current directory''
            (print ''------LinearSVC CLASSIFICATION TRAINING COMPLETED------'' w3)),
         Inr ()))"

text \<open>The function: the bare \<^verbatim>\<open>except\<close> takes every exception of the body, prints one
  line and falls off the end of the function, which returns \<^verbatim>\<open>None\<close> (\<open>Inr ()\<close>);
  \<open>Inl e\<close> would be an exception that reaches the caller.\<close>

definition train_linear_svc_model ::
  "numerics \<Rightarrow> world \<Rightarrow> string \<Rightarrow> world \<times> (py_exception + unit)" where
  "train_linear_svc_model lib w classification_training_data_json =
     (case train_body lib w classification_training_data_json of
        (w', Inr u) \<Rightarrow> (w', Inr ())
      | (w', Inl e) \<Rightarrow> (print ''Error training classification model'' w', Inr ()))"

subsection \<open>\<^verbatim>\<open>classify_utterance\<close>\<close>

text \<open>The last three lines of the function, on objects in memory:
  \<^verbatim>\<open>str(model.predict(vectorizer.transform([utterance]))[0])\<close>.\<close>

definition make_prediction :: "count_vectorizer \<Rightarrow> linear_svc \<Rightarrow> string \<Rightarrow> py_exception + string" where
  "make_prediction v m utt =
     (case predict m (transform v [utt]) of
        Inl e \<Rightarrow> Inl e
      | Inr raw_intent \<Rightarrow>
          (case getitem raw_intent 0 of Inl e \<Rightarrow> Inl e | Inr l \<Rightarrow> Inr (str_label l)))"

text \<open>The method lookups fail on an object of the wrong class; \<^verbatim>\<open>predict\<close> is looked up
  before its argument is evaluated. No exception is caught.\<close>

definition classify_utterance :: "world \<Rightarrow> string \<Rightarrow> string \<Rightarrow> string \<Rightarrow> py_exception + string" where
  "classify_utterance w utt vectorizer_file model_file =
     (case pickle_load w vectorizer_file of Inl e \<Rightarrow> Inl e | Inr loaded_model_vectorizer \<Rightarrow>
      case pickle_load w model_file of Inl e \<Rightarrow> Inl e | Inr loaded_model \<Rightarrow>
      case loaded_model of Vectorizer v \<Rightarrow> Inl AttributeError | Classifier m \<Rightarrow>
      case loaded_model_vectorizer of Classifier m' \<Rightarrow> Inl AttributeError | Vectorizer v \<Rightarrow>
        make_prediction v m utt)"

subsection \<open>The shape of a fitted classifier\<close>

text \<open>What \<^verbatim>\<open>fit\<close> establishes and \<^verbatim>\<open>predict\<close> relies on: at least two labels, one row
  of coefficients for two labels and one per label otherwise, as many intercepts as
  rows, and rows of the width \<open>nf\<close> of the feature matrix.\<close>

definition fitted_shape :: "linear_svc \<Rightarrow> nat \<Rightarrow> bool" where
  "fitted_shape m nf \<longleftrightarrow>
     2 \<le> length (classes m)
     \<and> length (coef m) = (if length (classes m) = 2 then 1 else length (classes m))
     \<and> length (intercept m) = length (coef m)
     \<and> list_all (\<lambda>r. length r = nf) (coef m)"

subsection \<open>The labels of a column\<close>


text \<open>The column at given positions, where all are in range.\<close>

fun series_nths :: "series \<Rightarrow> nat list \<Rightarrow> series" where
  "series_nths (ObjectSeries xs) idx = ObjectSeries (map (\<lambda>i. xs ! i) idx)"
| "series_nths (Int64Series ks) idx = Int64Series (map (\<lambda>i. ks ! i) idx)"
| "series_nths (Float64Series vs) idx = Float64Series (map (\<lambda>i. vs ! i) idx)"

subsection \<open>Inputs for the examples\<close>

text \<open>The training data printed in the notebook, a world that holds it under the name
  the notebook uses, and some values for the parameters. The values are there to run
  the model on examples; they are not what the libraries compute. \<open>example_float\<close>
  takes a string of at most fifteen digits for the number it writes, as \<^verbatim>\<open>float\<close> does,
  and no other string for a number; the permutation reverses the positions whatever
  the seed.\<close>

definition example_float :: "string \<Rightarrow> parsed option" where
  "example_float s =
     (if s \<noteq> [] \<and> length s \<le> 15 \<and> list_all (\<lambda>c. CHR ''0'' \<le> c \<and> c \<le> CHR ''9'') s
      then (let k = int (foldl (\<lambda>a c. 10 * a + (of_char c - of_char CHR ''0'')) 0 s)
            in Some (Whole k (str_int k @ ''.0'')))
      else None)"

definition example_numerics :: numerics where
  "example_numerics =
     \<lparr>py_float = example_float,
      permutation = (\<lambda>seed n. rev [0..<n]),
      tfidf_weight = (\<lambda>C i j. real (C ! i ! j)),
      train_wrap = (\<lambda>X y seed r c. if c = r then 1 else 0)\<rparr>"

definition classification_data :: "training_example list" where
  "classification_data =
     [\<lparr>intent = ''greeting'', utterance = ''whats up''\<rparr>,
      \<lparr>intent = ''book_appointment'', utterance = ''I am looking to book a haircut''\<rparr>,
      \<lparr>intent = ''book_appointment'', utterance = ''help me to set up a haircut with usual stylist''\<rparr>,
      \<lparr>intent = ''book_appointment'', utterance = ''is tomorrow at 10am ok too book a simple manicure''\<rparr>,
      \<lparr>intent = ''business_hours'', utterance = ''do you open for business on weekends''\<rparr>,
      \<lparr>intent = ''business_hours'', utterance = ''when are you closing?''\<rparr>,
      \<lparr>intent = ''business_hours'', utterance = ''when are you open for business''\<rparr>]"

definition notebook_world :: world where
  "notebook_world =
     \<lparr>fs = [''classification_data.json'' \<mapsto> JsonArray classification_data],
      stdout = [], np_random = (\<lambda>k. 0)\<rparr>"

text \<open>Worlds in which the training fails: the data file holds an empty array; it holds
  bytes that are not JSON; a directory has the name of the model file.\<close>

definition empty_data_world :: world where
  "empty_data_world =
     \<lparr>fs = [''classification_data.json'' \<mapsto> JsonArray []],
      stdout = [], np_random = (\<lambda>k. 0)\<rparr>"

definition malformed_data_world :: world where
  "malformed_data_world =
     \<lparr>fs = [''classification_data.json'' \<mapsto> OtherData],
      stdout = [], np_random = (\<lambda>k. 0)\<rparr>"

definition blocked_model_world :: world where
  "blocked_model_world =
     \<lparr>fs = [''classification_data.json'' \<mapsto> JsonArray classification_data,
             ''classification.model'' \<mapsto> Directory],
      stdout = [], np_random = (\<lambda>k. 0)\<rparr>"

text \<open>A vectorizer and a classifier for two labels, as objects in memory.\<close>

definition example_vectorizer :: count_vectorizer where
  "example_vectorizer = \<lparr>vocabulary = [''book'', ''haircut'', ''open'', ''when'']\<rparr>"

definition example_classifier :: linear_svc where
  "example_classifier =
     \<lparr>classes = [StrLabel ''book_appointment'', StrLabel ''business_hours''],
      coef = [[-1, -1, 1, 1]], intercept = [0]\<rparr>"








section \<open>Properties of the steps\<close>









lemma series_length_try_convert_data: "series_length (try_convert_data lib xs) = length xs"
proof -
  have len: "those ys = Some zs \<Longrightarrow> length zs = length ys" for ys :: "'b option list" and zs
    by (induction ys arbitrary: zs) (auto split: option.splits)
  show ?thesis
  proof (cases "those (map (py_float lib) xs)")
    case None
    then show ?thesis by (simp add: try_convert_data_def)
  next
    case (Some vs)
    have lv: "length vs = length xs" using len [OF Some] by simp
    show ?thesis
    proof (cases "those (map whole vs)")
      case None
      then show ?thesis using Some lv by (simp add: try_convert_data_def)
    next
      case krs: (Some krs)
      have "length krs = length vs" using len [OF krs] by simp
      then show ?thesis using Some krs lv by (simp add: try_convert_data_def)
    qed
  qed
qed


lemma series_take_in_range:
  assumes "set idx \<subseteq> {0..<series_length s}"
  shows "series_take s idx = Inr (series_nths s idx)"
proof -
  have a: "safe_indexing xs idx = Inr (map (\<lambda>i. xs ! i) idx)"
    if "set idx \<subseteq> {0..<length xs}" for xs :: "'b list"
    using that by (auto simp: safe_indexing_def list_all_iff)
  show ?thesis using assms by (cases s) (simp_all add: a)
qed

lemma series_length_nths: "series_length (series_nths s idx) = length idx"
  by (cases s) simp_all




lemma fit_classes:
  assumes "fit lib X y w = (w', Inr m)"
  shows "\<exists>ind. encode_labels y = Some (classes m, ind)"
proof (cases "encode_labels y")
  case None
  then show ?thesis using assms by (simp add: fit_def)
next
  case (Some q)
  obtain cs ind where q: "q = (cs, ind)" by (cases q) blast
  have "classes m = cs"
    using assms Some unfolding q fit_def Let_def randint_def
    by (auto split: if_splits prod.splits)
  then show ?thesis using Some q by simp
qed

lemma fit_shape:
  assumes "fit lib X y w = (w', Inr m)"
  shows "fitted_shape m (n_cols X)"
proof (cases "encode_labels y")
  case None
  then show ?thesis using assms by (simp add: fit_def)
next
  case (Some q)
  obtain cs ind where q: "q = (cs, ind)" by (cases q) blast
  show ?thesis
    using assms Some unfolding q fit_def Let_def randint_def fitted_shape_def
    by (auto split: if_splits prod.splits simp: list_all_iff)
qed

lemma fit_fs: "fit lib X y w = (w', r) \<Longrightarrow> fs w' = fs w \<and> stdout w' = stdout w"
  unfolding fit_def Let_def randint_def
  by (auto split: if_splits prod.splits option.splits)

lemma training_split_Inr:
  "training_split lib w path = Inr q \<longleftrightarrow>
     (\<exists>rows. fs w path = Some (JsonArray rows) \<and> rows \<noteq> []
        \<and> train_test_split lib 0 (try_convert_data lib (map utterance rows))
              (try_convert_data lib (map intent rows)) = Inr q)"
proof (cases "fs w path")
  case None
  then show ?thesis by (simp add: training_split_def read_json_def)
next
  case (Some c)
  show ?thesis
  proof (cases c)
    case (JsonArray rows)
    show ?thesis
    proof (cases "rows = []")
      case True
      then show ?thesis
        using Some JsonArray by (simp add: training_split_def read_json_def frame_getitem_def)
    next
      case False
      then show ?thesis
        using Some JsonArray by (simp add: training_split_def read_json_def frame_getitem_def)
    qed
  qed (use Some in \<open>simp_all add: training_split_def read_json_def\<close>)
qed

lemma training_split_empty:
  assumes "fs w path = Some (JsonArray [])"
  shows "training_split lib w path = Inl KeyError"
  using assms by (simp add: training_split_def read_json_def frame_getitem_def)

lemma fit_transform_Inr:
  assumes "fit_transform X = Inr (cv, C)"
  obtains docs where "X = ObjectSeries docs" and "vocabulary cv \<noteq> []"
    and "C = transform cv docs" and "docs \<noteq> []"
proof (cases X)
  case (ObjectSeries docs)
  have "vocabulary cv \<noteq> []" and "C = transform cv docs" and "docs \<noteq> []"
    using assms unfolding ObjectSeries fit_transform_def Let_def
    by (auto split: if_splits)
  then show ?thesis using ObjectSeries that by blast
next
  case (Int64Series ks)
  then show ?thesis using assms by (simp add: fit_transform_def split: if_splits)
next
  case (Float64Series vs)
  then show ?thesis using assms by (simp add: fit_transform_def split: if_splits)
qed

lemma n_cols_map_upt: "n_cols (map f [0..<Suc n]) = length (f 0)"
  by (simp add: n_cols_def upt_conv_Cons del: upt_Suc)

lemma n_cols_tfidf:
  assumes "docs \<noteq> []"
  shows "n_cols (tfidf_fit_transform lib (transform cv docs)) = length (vocabulary cv)"
proof -
  obtain d ds where docs: "docs = d # ds" using assms by (cases docs) auto
  have len: "length (transform cv docs) = Suc (length ds)"
    by (simp add: docs transform_def)
  have row: "length (transform cv docs ! 0) = length (vocabulary cv)"
    by (simp add: docs transform_def)
  show ?thesis
    unfolding tfidf_fit_transform_def len n_cols_map_upt by (simp add: row)
qed

lemma pickle_dump_Inr:
  "pickle_dump obj path w = (w', Inr u) \<Longrightarrow> w' = w\<lparr>fs := (fs w)(path \<mapsto> Pickled obj)\<rparr>"
  by (auto simp: pickle_dump_def split: option.splits file_content.splits)

lemma pickle_dump_Inl:
  "pickle_dump obj path w = (w', Inl e) \<Longrightarrow> w' = w"
  by (auto simp: pickle_dump_def split: option.splits file_content.splits)

lemma train_body_steps:
  assumes "training_split lib w p = Inr (X_train, X_test, y_train, y_test)"
    and "fit_transform X_train = Inr (cv, C)"
    and "fit lib (tfidf_fit_transform lib C) y_train w = (w1, Inr m)"
    and "pickle_dump (Vectorizer cv) clf_model_vectorizer_pickle_file w1 = (w2, Inr ())"
    and "pickle_dump (Classifier m) clf_model_file w2 = (w3, Inr ())"
  shows "train_body lib w p =
          (print ''Classification model saved to the current directory''
            (print ''Vectorizer model saved to the current directory''
              (print ''------LinearSVC CLASSIFICATION TRAINING COMPLETED------'' w3)),
           Inr ())"
  unfolding train_body_def Let_def
  by (simp only: assms sum.case prod.case)

text \<open>Every way through the body of the \<^verbatim>\<open>try\<close> block: it stops at one of the steps
  with an exception and nothing printed, or every step succeeds.\<close>

lemma train_body_outcome:
  obtains (fail) w' e where "train_body lib w p = (w', Inl e)" and "stdout w' = stdout w"
      and "w' = w \<or> (\<exists>q. training_split lib w p = Inr q)"
  | (ok) X_train X_test y_train y_test cv C m w1 where
      "training_split lib w p = Inr (X_train, X_test, y_train, y_test)"
      and "fit_transform X_train = Inr (cv, C)"
      and "fit lib (tfidf_fit_transform lib C) y_train w = (w1, Inr m)"
      and "train_body lib w p =
          (print ''Classification model saved to the current directory''
            (print ''Vectorizer model saved to the current directory''
              (print ''------LinearSVC CLASSIFICATION TRAINING COMPLETED------''
                (w1\<lparr>fs := (fs w1)(clf_model_vectorizer_pickle_file \<mapsto> Pickled (Vectorizer cv),
                                   clf_model_file \<mapsto> Pickled (Classifier m))\<rparr>))),
           Inr ())"
proof (cases "training_split lib w p")
  case (Inl e)
  then have "train_body lib w p = (w, Inl e)"
    unfolding train_body_def by (simp only: sum.case)
  then show thesis by (rule fail) simp_all
next
  case (Inr q)
  obtain X_train X_test y_train y_test where "q = (X_train, X_test, y_train, y_test)"
    by (cases q) blast
  note split1 = Inr [unfolded this]
  have sp: "w' = w \<or> (\<exists>q. training_split lib w p = Inr q)" for w'
    using split1 by blast
  show thesis
  proof (cases "fit_transform X_train")
    case (Inl e)
    then have "train_body lib w p = (w, Inl e)"
      unfolding train_body_def by (simp only: split1 sum.case prod.case)
    then show thesis by (rule fail) simp_all
  next
    case (Inr q)
    obtain cv C where "q = (cv, C)" by (cases q) blast
    note ft = Inr [unfolded this]
    obtain w1 r where fit1: "fit lib (tfidf_fit_transform lib C) y_train w = (w1, r)"
      by (cases "fit lib (tfidf_fit_transform lib C) y_train w") blast
    have out1: "stdout w1 = stdout w" using fit_fs [OF fit1] by blast
    show thesis
    proof (cases r)
      case (Inl e)
      have "train_body lib w p = (w1, Inl e)"
        unfolding train_body_def Let_def
        using fit1 [unfolded Inl] by (simp only: split1 ft sum.case prod.case)
      then show thesis using out1 sp by (rule fail)
    next
      case (Inr m)
      note fit2 = fit1 [unfolded Inr]
      obtain w2 r2
        where d1: "pickle_dump (Vectorizer cv) clf_model_vectorizer_pickle_file w1 = (w2, r2)"
        by (cases "pickle_dump (Vectorizer cv) clf_model_vectorizer_pickle_file w1") blast
      show thesis
      proof (cases r2)
        case (Inl e)
        note d1' = d1 [unfolded Inl]
        have "train_body lib w p = (w2, Inl e)"
          unfolding train_body_def Let_def
          using d1' by (simp only: split1 ft fit2 sum.case prod.case)
        moreover have "stdout w2 = stdout w"
          using pickle_dump_Inl [OF d1'] out1 by simp
        ultimately show thesis using sp by (rule fail)
      next
        case (Inr u)
        have u: "u = ()" by simp
        note d1' = d1 [unfolded Inr u]
        have w2: "w2 = w1\<lparr>fs := (fs w1)(clf_model_vectorizer_pickle_file \<mapsto> Pickled (Vectorizer cv))\<rparr>"
          using d1' by (rule pickle_dump_Inr)
        have out2: "stdout w2 = stdout w" using w2 out1 by simp
        obtain w3 r3 where d2: "pickle_dump (Classifier m) clf_model_file w2 = (w3, r3)"
          by (cases "pickle_dump (Classifier m) clf_model_file w2") blast
        show thesis
        proof (cases r3)
          case (Inl e)
          note d2' = d2 [unfolded Inl]
          have "train_body lib w p = (w3, Inl e)"
            unfolding train_body_def Let_def
            using d2' by (simp only: split1 ft fit2 d1' sum.case prod.case)
          moreover have "stdout w3 = stdout w"
            using pickle_dump_Inl [OF d2'] out2 by simp
          ultimately show thesis using sp by (rule fail)
        next
          case (Inr u')
          have u': "u' = ()" by simp
          note d2' = d2 [unfolded Inr u']
          have w3: "w3 = w2\<lparr>fs := (fs w2)(clf_model_file \<mapsto> Pickled (Classifier m))\<rparr>"
            using d2' by (rule pickle_dump_Inr)
          have w3': "w3 = w1\<lparr>fs := (fs w1)(clf_model_vectorizer_pickle_file \<mapsto> Pickled (Vectorizer cv),
                                   clf_model_file \<mapsto> Pickled (Classifier m))\<rparr>"
            unfolding w3 w2 by simp
          show thesis
            using split1 ft fit2 train_body_steps [OF split1 ft fit2 d1' d2', unfolded w3']
            by (rule ok)
        qed
      qed
    qed
  qed
qed

lemma train_body_success:
  assumes ok: "snd (train_body lib w p) = Inr ()"
  obtains rows X_train X_test y_train y_test docs cv m w1 where
    "fs w p = Some (JsonArray rows)" and "rows \<noteq> []"
    and "training_split lib w p = Inr (X_train, X_test, y_train, y_test)"
    and "X_train = ObjectSeries docs" and "docs \<noteq> []"
    and "fit_transform X_train = Inr (cv, transform cv docs)"
    and "fit lib (tfidf_fit_transform lib (transform cv docs)) y_train w = (w1, Inr m)"
    and "fs (fst (train_body lib w p))
           = (fs w)(clf_model_vectorizer_pickle_file \<mapsto> Pickled (Vectorizer cv),
                    clf_model_file \<mapsto> Pickled (Classifier m))"
    and "stdout (fst (train_body lib w p)) = stdout w @
           [''------LinearSVC CLASSIFICATION TRAINING COMPLETED------'',
            ''Vectorizer model saved to the current directory'',
            ''Classification model saved to the current directory'']"
proof (rule train_body_outcome [of lib w p])
  fix w' e
  assume "train_body lib w p = (w', Inl e)"
  then show thesis using ok by simp
next
  fix X_train X_test y_train y_test cv C m w1
  assume split1: "training_split lib w p = Inr (X_train, X_test, y_train, y_test)"
    and ft: "fit_transform X_train = Inr (cv, C)"
    and fit1: "fit lib (tfidf_fit_transform lib C) y_train w = (w1, Inr m)"
    and tb: "train_body lib w p =
          (print ''Classification model saved to the current directory''
            (print ''Vectorizer model saved to the current directory''
              (print ''------LinearSVC CLASSIFICATION TRAINING COMPLETED------''
                (w1\<lparr>fs := (fs w1)(clf_model_vectorizer_pickle_file \<mapsto> Pickled (Vectorizer cv),
                                   clf_model_file \<mapsto> Pickled (Classifier m))\<rparr>))),
           Inr ())"
  obtain rows where rows: "fs w p = Some (JsonArray rows)" "rows \<noteq> []"
    using split1 unfolding training_split_Inr by blast
  obtain docs where docs: "X_train = ObjectSeries docs" "C = transform cv docs" "docs \<noteq> []"
    using ft by (rule fit_transform_Inr)
  have w1: "fs w1 = fs w" "stdout w1 = stdout w"
    using fit_fs [OF fit1] by simp_all
  have fsb: "fs (fst (train_body lib w p))
           = (fs w)(clf_model_vectorizer_pickle_file \<mapsto> Pickled (Vectorizer cv),
                    clf_model_file \<mapsto> Pickled (Classifier m))"
    unfolding tb by (simp add: print_def w1)
  have outb: "stdout (fst (train_body lib w p)) = stdout w @
           [''------LinearSVC CLASSIFICATION TRAINING COMPLETED------'',
            ''Vectorizer model saved to the current directory'',
            ''Classification model saved to the current directory'']"
    unfolding tb by (simp add: print_def w1)
  show thesis
    using rows split1 docs(1) docs(3) ft [unfolded docs(2)] fit1 [unfolded docs(2)] fsb outb
    by (rule that)
qed

lemma artifact_files_differ: "clf_model_vectorizer_pickle_file \<noteq> clf_model_file"
  by (simp add: clf_model_vectorizer_pickle_file_def clf_model_file_def)




lemma classify_loaded:
  assumes "fs w vf = Some (Pickled (Vectorizer v))" and "fs w mf = Some (Pickled (Classifier m))"
  shows "classify_utterance w u vf mf = make_prediction v m u"
  by (simp add: classify_utterance_def pickle_load_def assms)

lemma classify_after_training:
  assumes ok: "snd (train_body lib w p) = Inr ()"
  obtains cv m X_train X_test y_train y_test where
    "fs (fst (train_body lib w p)) clf_model_vectorizer_pickle_file = Some (Pickled (Vectorizer cv))"
    and "fs (fst (train_body lib w p)) clf_model_file = Some (Pickled (Classifier m))"
    and "\<And>u. classify_utterance (fst (train_body lib w p)) u
               clf_model_vectorizer_pickle_file clf_model_file = make_prediction cv m u"
    and "fitted_shape m (length (vocabulary cv))"
    and "training_split lib w p = Inr (X_train, X_test, y_train, y_test)"
    and "\<exists>C. fit_transform X_train = Inr (cv, C)"
    and "\<exists>ind. encode_labels y_train = Some (classes m, ind)"
proof (rule train_body_success [OF ok])
  fix rows X_train X_test y_train y_test docs cv m w1
  assume split1: "training_split lib w p = Inr (X_train, X_test, y_train, y_test)"
    and docs: "docs \<noteq> []"
    and ft: "fit_transform X_train = Inr (cv, transform cv docs)"
    and fit1: "fit lib (tfidf_fit_transform lib (transform cv docs)) y_train w = (w1, Inr m)"
    and fsb: "fs (fst (train_body lib w p))
           = (fs w)(clf_model_vectorizer_pickle_file \<mapsto> Pickled (Vectorizer cv),
                    clf_model_file \<mapsto> Pickled (Classifier m))"
  have a: "fs (fst (train_body lib w p)) clf_model_vectorizer_pickle_file = Some (Pickled (Vectorizer cv))"
    unfolding fsb using artifact_files_differ by simp
  have b: "fs (fst (train_body lib w p)) clf_model_file = Some (Pickled (Classifier m))"
    unfolding fsb by simp
  have nc: "n_cols (tfidf_fit_transform lib (transform cv docs)) = length (vocabulary cv)"
    by (rule n_cols_tfidf [OF docs])
  have shape: "fitted_shape m (length (vocabulary cv))"
    using fit_shape [OF fit1] unfolding nc .
  show thesis
  proof (rule that [of cv m X_train X_test y_train y_test])
    show "fs (fst (train_body lib w p)) clf_model_vectorizer_pickle_file = Some (Pickled (Vectorizer cv))"
      by (rule a)
    show "fs (fst (train_body lib w p)) clf_model_file = Some (Pickled (Classifier m))" by (rule b)
    show "classify_utterance (fst (train_body lib w p)) u
               clf_model_vectorizer_pickle_file clf_model_file = make_prediction cv m u" for u
      using a b by (rule classify_loaded)
    show "fitted_shape m (length (vocabulary cv))" by (rule shape)
    show "training_split lib w p = Inr (X_train, X_test, y_train, y_test)" by (rule split1)
    show "\<exists>C. fit_transform X_train = Inr (cv, C)" using ft by blast
    show "\<exists>ind. encode_labels y_train = Some (classes m, ind)" by (rule fit_classes [OF fit1])
  qed
qed

lemma train_body_failure_stdout:
  assumes "snd (train_body lib w p) = Inl e"
  shows "stdout (fst (train_body lib w p)) = stdout w"
proof (rule train_body_outcome [of lib w p])
  fix w' e' assume "train_body lib w p = (w', Inl e')" and "stdout w' = stdout w"
  then show ?thesis by simp
next
  fix w3 :: world
  assume "train_body lib w p =
          (print ''Classification model saved to the current directory''
            (print ''Vectorizer model saved to the current directory''
              (print ''------LinearSVC CLASSIFICATION TRAINING COMPLETED------'' w3)),
           Inr ())"
  then show ?thesis using assms by simp
qed

lemma train_result_failure:
  assumes "snd (train_body lib w p) = Inl e"
  shows "train_linear_svc_model lib w p
           = (print ''Error training classification model'' (fst (train_body lib w p)), Inr ())"
proof -
  obtain w' where tb: "train_body lib w p = (w', Inl e)"
    using assms by (cases "train_body lib w p") simp
  show ?thesis
    unfolding train_linear_svc_model_def tb by simp
qed

lemma train_result_success:
  assumes "snd (train_body lib w p) = Inr ()"
  shows "train_linear_svc_model lib w p = (fst (train_body lib w p), Inr ())"
proof -
  obtain w' where tb: "train_body lib w p = (w', Inr ())"
    using assms by (cases "train_body lib w p") simp
  show ?thesis
    unfolding train_linear_svc_model_def tb by simp
qed












lemma n_test_le: "n_test n \<le> n"
  by (simp add: n_test_def)

lemma n_train_plus_n_test: "n_train n + n_test n = n"
  using n_test_le [of n] by (simp add: n_train_def)

lemma n_train_pos: "2 \<le> n \<Longrightarrow> n_train n \<noteq> 0"
  by (simp add: n_train_def n_test_def)

lemma train_test_split_permutation:
  assumes perm: "mset (permutation lib seed (series_length X)) = mset [0..<series_length X]"
    and len: "series_length y = series_length X" and two: "2 \<le> series_length X"
  shows "train_test_split lib seed X y =
           Inr (series_nths X (drop (n_test (series_length X)) (permutation lib seed (series_length X))),
                series_nths X (take (n_test (series_length X)) (permutation lib seed (series_length X))),
                series_nths y (drop (n_test (series_length X)) (permutation lib seed (series_length X))),
                series_nths y (take (n_test (series_length X)) (permutation lib seed (series_length X))))"
proof -
  let ?n = "series_length X"
  let ?p = "permutation lib seed ?n"
  have setp: "set ?p = {0..<?n}"
    using mset_eq_setD [OF perm] by simp
  have lp: "length ?p = ?n" using mset_eq_length [OF perm] by simp
  have tr_eq: "take (n_train ?n) (drop (n_test ?n) ?p) = drop (n_test ?n) ?p"
    by (simp add: lp n_train_def)
  have te: "set (take (n_test ?n) ?p) \<subseteq> {0..<?n}"
    using set_take_subset [of "n_test ?n" ?p] setp by blast
  have tr: "set (drop (n_test ?n) ?p) \<subseteq> {0..<?n}"
    using set_drop_subset [of "n_test ?n" ?p] setp by blast
  have v: "validate_shuffle_split ?n = Inr (n_train ?n, n_test ?n)"
    using n_train_pos [OF two] by (simp add: validate_shuffle_split_def)
  have s1: "series_take X (drop (n_test ?n) ?p) = Inr (series_nths X (drop (n_test ?n) ?p))"
    using tr by (rule series_take_in_range)
  have s2: "series_take X (take (n_test ?n) ?p) = Inr (series_nths X (take (n_test ?n) ?p))"
    using te by (rule series_take_in_range)
  have s3: "series_take y (drop (n_test ?n) ?p) = Inr (series_nths y (drop (n_test ?n) ?p))"
    using tr len by (intro series_take_in_range) simp
  have s4: "series_take y (take (n_test ?n) ?p) = Inr (series_nths y (take (n_test ?n) ?p))"
    using te len by (intro series_take_in_range) simp
  show ?thesis
    unfolding train_test_split_def Let_def v
    by (simp only: len sum.case prod.case tr_eq s1 s2 s3 s4) simp
qed




text \<open>The notebook's own run: the training body succeeds on the printed data.\<close>

lemma notebook_training_succeeds:
  "snd (train_body example_numerics notebook_world ''classification_data.json'') = Inr ()"
  by code_simp



lemma notebook_data_file:
  "fs notebook_world ''classification_data.json'' = Some (JsonArray classification_data)"
  by (simp add: notebook_world_def)



text \<open>The trainer asks the generator for the permutation of seed 0 and for no other.\<close>

lemma train_test_split_seed_only:
  assumes "q seed = permutation lib seed"
  shows "train_test_split (lib\<lparr>permutation := q\<rparr>) seed X y = train_test_split lib seed X y"
proof -
  have s: "permutation (lib\<lparr>permutation := q\<rparr>) seed = permutation lib seed"
    using assms by simp
  show ?thesis unfolding train_test_split_def s by (rule refl)
qed

lemma try_convert_data_permutation:
  "try_convert_data (lib\<lparr>permutation := q\<rparr>) xs = try_convert_data lib xs"
proof -
  have s: "py_float (lib\<lparr>permutation := q\<rparr>) = py_float lib" by simp
  show ?thesis unfolding try_convert_data_def s by (rule refl)
qed

lemma read_json_permutation:
  "read_json (lib\<lparr>permutation := q\<rparr>) w path = read_json lib w path"
  unfolding read_json_def try_convert_data_permutation by (rule refl)

lemma training_split_seed_zero:
  assumes "q 0 = permutation lib 0"
  shows "training_split (lib\<lparr>permutation := q\<rparr>) w path = training_split lib w path"
  unfolding training_split_def read_json_permutation
    train_test_split_seed_only [of q 0 lib, OF assms]
  by (rule refl)

lemma fit_permutation: "fit (lib\<lparr>permutation := q\<rparr>) X y w = fit lib X y w"
proof -
  have s: "train_wrap (lib\<lparr>permutation := q\<rparr>) = train_wrap lib" by simp
  show ?thesis unfolding fit_def s by (rule refl)
qed

lemma tfidf_permutation:
  "tfidf_fit_transform (lib\<lparr>permutation := q\<rparr>) C = tfidf_fit_transform lib C"
  by (simp add: tfidf_fit_transform_def)

lemma train_body_seed_zero:
  assumes "q 0 = permutation lib 0"
  shows "train_body (lib\<lparr>permutation := q\<rparr>) w path = train_body lib w path"
  unfolding train_body_def training_split_seed_zero [where q=q and lib=lib, OF assms] fit_permutation tfidf_permutation
  by (rule refl)

lemma series_take_length:
  assumes "series_take s idx = Inr t"
  shows "series_length t = length idx"
proof -
  have a: "length ys = length idx" if "safe_indexing xs idx = Inr ys"
    for xs ys :: "'b list"
    using that by (auto simp: safe_indexing_def split: if_splits)
  show ?thesis using assms by (cases s) (auto simp: a split: sum.splits)
qed

lemma train_test_split_parts:
  assumes "train_test_split lib seed X y = Inr (X_train, X_test, y_train, y_test)"
  shows "series_take X (take (n_train (series_length X))
            (drop (n_test (series_length X)) (permutation lib seed (series_length X))))
           = Inr X_train
         \<and> series_take X (take (n_test (series_length X))
               (permutation lib seed (series_length X))) = Inr X_test"
proof -
  let ?n = "series_length X"
  have len: "series_length y = ?n"
    using assms by (auto simp: train_test_split_def split: if_splits)
  have v: "validate_shuffle_split ?n = Inr (n_train ?n, n_test ?n)"
    using assms len
    by (auto simp: train_test_split_def validate_shuffle_split_def split: if_splits)
  show ?thesis
    using assms len unfolding train_test_split_def Let_def v
    by (auto split: sum.splits)
qed

lemma train_test_split_sizes:
  assumes split1: "train_test_split lib seed X y = Inr (X_train, X_test, y_train, y_test)"
    and lp: "length (permutation lib seed (series_length X)) = series_length X"
  shows "series_length X_test = n_test (series_length X)
         \<and> series_length X_train = n_train (series_length X)"
proof -
  let ?n = "series_length X"
  have a: "series_length X_train
             = length (take (n_train ?n) (drop (n_test ?n) (permutation lib seed ?n)))"
    using train_test_split_parts [OF split1, THEN conjunct1] by (rule series_take_length)
  have b: "series_length X_test = length (take (n_test ?n) (permutation lib seed ?n))"
    using train_test_split_parts [OF split1, THEN conjunct2] by (rule series_take_length)
  show ?thesis
    using a b n_test_le [of ?n] by (simp add: lp n_train_def)
qed






section \<open>The claims\<close>






text \<open>
  C3 (serialization round trip). For every vectorizer \<open>v\<close> and classifier \<open>m\<close>: once both
  have been dumped, each to its own file, \<^verbatim>\<open>classify_utterance\<close> on the two files gives,
  for every utterance, what the prediction on the objects in memory gives, a label or
  the same exception. The pickle format is not modelled: a dumped file holds the
  object, and loading returns it.
\<close>

theorem serialization_round_trip:
  assumes "pickle_dump (Vectorizer v) vectorizer_file w = (w1, Inr ())"
    and "pickle_dump (Classifier m) model_file w1 = (w2, Inr ())"
    and "vectorizer_file \<noteq> model_file"
  shows "classify_utterance w2 utt vectorizer_file model_file = make_prediction v m utt"
proof -
  have w1: "w1 = w\<lparr>fs := (fs w)(vectorizer_file \<mapsto> Pickled (Vectorizer v))\<rparr>"
    using assms(1) by (rule pickle_dump_Inr)
  have w2: "w2 = w1\<lparr>fs := (fs w1)(model_file \<mapsto> Pickled (Classifier m))\<rparr>"
    using assms(2) by (rule pickle_dump_Inr)
  have a: "fs w2 vectorizer_file = Some (Pickled (Vectorizer v))"
    using assms(3) by (simp add: w1 w2)
  have b: "fs w2 model_file = Some (Pickled (Classifier m))"
    by (simp add: w2)
  show ?thesis using a b by (rule classify_loaded)
qed

theorem serialization_round_trip_witness:
  "pickle_dump (Vectorizer example_vectorizer) clf_model_vectorizer_pickle_file notebook_world
     = (fst (pickle_dump (Vectorizer example_vectorizer) clf_model_vectorizer_pickle_file
               notebook_world), Inr ())
   \<and> clf_model_vectorizer_pickle_file \<noteq> clf_model_file
   \<and> classify_utterance
        (fst (pickle_dump (Classifier example_classifier) clf_model_file
           (fst (pickle_dump (Vectorizer example_vectorizer) clf_model_vectorizer_pickle_file
                   notebook_world))))
        ''when are you open'' clf_model_vectorizer_pickle_file clf_model_file
       = make_prediction example_vectorizer example_classifier ''when are you open''
   \<and> make_prediction example_vectorizer example_classifier ''when are you open''
       = Inr ''business_hours''"
proof -
  let ?w1 = "fst (pickle_dump (Vectorizer example_vectorizer) clf_model_vectorizer_pickle_file
               notebook_world)"
  let ?w2 = "fst (pickle_dump (Classifier example_classifier) clf_model_file ?w1)"
  have d1: "pickle_dump (Vectorizer example_vectorizer) clf_model_vectorizer_pickle_file
              notebook_world = (?w1, Inr ())"
    by (simp add: pickle_dump_def notebook_world_def clf_model_vectorizer_pickle_file_def)
  have d2: "pickle_dump (Classifier example_classifier) clf_model_file ?w1 = (?w2, Inr ())"
    by (simp add: pickle_dump_def notebook_world_def clf_model_vectorizer_pickle_file_def
        clf_model_file_def)
  have ne: "clf_model_vectorizer_pickle_file \<noteq> clf_model_file"
    by (simp add: clf_model_vectorizer_pickle_file_def clf_model_file_def)
  have p: "make_prediction example_vectorizer example_classifier ''when are you open''
             = Inr ''business_hours''"
    by code_simp
  show ?thesis
    using serialization_round_trip [OF d1 d2 ne, of "''when are you open''"] d1 ne p
    by simp
qed

text \<open>
  C4 (determinism under the fixed split seed) can be stated here as an equality of two
  runs: from two worlds with the same files and any two states of numpy's global
  generator, the classifiers written agree on every utterance. The split, the
  vocabulary and the labels of the two runs are the same, as they are functions of the
  data and the literal seed 0. The weights are not settled by the notebook:
  \<^verbatim>\<open>LinearSVC()\<close> is built without \<^verbatim>\<open>random_state\<close>, so liblinear is seeded from the
  global generator, which the notebook never seeds (\<open>randint\<close> above), and its coordinate
  descent visits the examples in an order that depends on that seed. The two runs get
  \<open>train_wrap\<close> at two seeds, and whether the signs of the scores then agree on every
  utterance is a property of the solver's floating-point result: it holds for a
  \<open>train_wrap\<close> that ignores the seed and fails for one that does not, and the solver
  is no part of the notebook. No theorem is given.
\<close>

text \<open>
  C5 (failure policy of the trainer). Whatever exception \<open>e\<close> the body of the \<^verbatim>\<open>try\<close>
  block raises (malformed input, an empty training set, a failure writing an artifact),
  the handler takes it: the function prints the one line
  \<^verbatim>\<open>Error training classification model\<close>, nothing else is printed, and it returns
  \<^verbatim>\<open>None\<close>. The report does not depend on \<open>e\<close>. The files are left as the body left them.
\<close>

theorem training_failure_is_generic:
  assumes "snd (train_body lib w path) = Inl e"
  shows "train_linear_svc_model lib w path
           = (print ''Error training classification model'' (fst (train_body lib w path)), Inr ())
         \<and> stdout (fst (train_linear_svc_model lib w path))
           = stdout w @ [''Error training classification model'']"
proof -
  have r: "train_linear_svc_model lib w path
           = (print ''Error training classification model'' (fst (train_body lib w path)), Inr ())"
    using assms by (rule train_result_failure)
  have "stdout (fst (train_body lib w path)) = stdout w"
    using assms by (rule train_body_failure_stdout)
  then have "stdout (fst (train_linear_svc_model lib w path))
           = stdout w @ [''Error training classification model'']"
    unfolding r by (simp add: print_def)
  then show ?thesis using r by simp
qed

theorem training_failure_is_generic_witness:
  "snd (train_body example_numerics malformed_data_world ''classification_data.json'') = Inl ValueError
   \<and> snd (train_body example_numerics empty_data_world ''classification_data.json'') = Inl KeyError
   \<and> snd (train_body example_numerics blocked_model_world ''classification_data.json'')
       = Inl IsADirectoryError
   \<and> stdout (fst (train_linear_svc_model example_numerics malformed_data_world
                    ''classification_data.json''))
       = [''Error training classification model'']
   \<and> stdout (fst (train_linear_svc_model example_numerics empty_data_world
                    ''classification_data.json''))
       = [''Error training classification model'']
   \<and> stdout (fst (train_linear_svc_model example_numerics blocked_model_world
                    ''classification_data.json''))
       = [''Error training classification model'']"
proof -
  have a: "snd (train_body example_numerics malformed_data_world ''classification_data.json'')
             = Inl ValueError"
    by code_simp
  have b: "snd (train_body example_numerics empty_data_world ''classification_data.json'')
             = Inl KeyError"
    by code_simp
  have c: "snd (train_body example_numerics blocked_model_world ''classification_data.json'')
             = Inl IsADirectoryError"
    by code_simp
  have o: "stdout malformed_data_world = []" "stdout empty_data_world = []"
    "stdout blocked_model_world = []"
    by (simp_all add: malformed_data_world_def empty_data_world_def blocked_model_world_def)
  have s1: "stdout (fst (train_linear_svc_model example_numerics malformed_data_world
                    ''classification_data.json''))
       = [''Error training classification model'']"
    using training_failure_is_generic [OF a, THEN conjunct2] unfolding o append_Nil .
  have s2: "stdout (fst (train_linear_svc_model example_numerics empty_data_world
                    ''classification_data.json''))
       = [''Error training classification model'']"
    using training_failure_is_generic [OF b, THEN conjunct2] unfolding o append_Nil .
  have s3: "stdout (fst (train_linear_svc_model example_numerics blocked_model_world
                    ''classification_data.json''))
       = [''Error training classification model'']"
    using training_failure_is_generic [OF c, THEN conjunct2] unfolding o append_Nil .
  show ?thesis using a b c s1 s2 s3 by blast
qed

text \<open>
  C6 (missing vectorizer file), as stated: the call fails with a \<^verbatim>\<open>LoadError\<close> or
  \<^verbatim>\<open>ArtifactLoadError\<close>. In the world the notebook's training leaves, with a vectorizer path
  that names no file, the exception that reaches the caller is the \<^verbatim>\<open>FileNotFoundError\<close>
  of \<^verbatim>\<open>open\<close>; it is an instance of neither class. The notebook defines no exception
  class and \<^verbatim>\<open>classify_utterance\<close> has no handler.
\<close>

theorem missing_vectorizer_counterexample:
  "classify_utterance
     (fst (train_body example_numerics notebook_world ''classification_data.json''))
     ''hey whats up Virtual Assistant'' ''no_such_vectorizer.pickle'' clf_model_file
     = Inl FileNotFoundError
   \<and> ''LoadError'' \<notin> set (mro FileNotFoundError)
   \<and> ''ArtifactLoadError'' \<notin> set (mro FileNotFoundError)"
  by code_simp

text \<open>
  C6, amended. When the vectorizer path names no file, \<^verbatim>\<open>classify_utterance\<close> returns no
  label: the \<^verbatim>\<open>FileNotFoundError\<close> raised by loading the vectorizer reaches the caller,
  whatever the utterance and the model path are.
\<close>

theorem missing_vectorizer_raises_file_not_found:
  assumes "fs w vectorizer_file = None"
  shows "classify_utterance w utt vectorizer_file model_file = Inl FileNotFoundError
         \<and> pickle_load w vectorizer_file = Inl FileNotFoundError"
  using assms by (simp add: classify_utterance_def pickle_load_def)

theorem missing_vectorizer_raises_file_not_found_witness:
  "fs notebook_world ''model_vectorizer.pickle'' = None
   \<and> classify_utterance notebook_world ''hey whats up Virtual Assistant''
         ''model_vectorizer.pickle'' ''classification.model'' = Inl FileNotFoundError"
proof -
  have n: "fs notebook_world ''model_vectorizer.pickle'' = None"
    by (simp add: notebook_world_def)
  show ?thesis
    using missing_vectorizer_raises_file_not_found [OF n] n by blast
qed

text \<open>
  C7 (empty input), as stated: training on an empty sequence fails with an
  \<^verbatim>\<open>EmptyDatasetError\<close>. On an empty array the body raises the \<^verbatim>\<open>KeyError\<close> of the column
  access, which is no \<^verbatim>\<open>EmptyDatasetError\<close>, and the handler takes it: the function
  returns \<^verbatim>\<open>None\<close> and no exception reaches the caller.
\<close>

theorem empty_input_counterexample:
  "snd (train_linear_svc_model example_numerics empty_data_world ''classification_data.json'')
     = Inr ()
   \<and> snd (train_body example_numerics empty_data_world ''classification_data.json'')
     = Inl KeyError
   \<and> ''EmptyDatasetError'' \<notin> set (mro KeyError)"
  by code_simp

text \<open>
  C7, amended. On an empty array of examples the body of \<^verbatim>\<open>train_linear_svc_model\<close> stops
  at the column access with a \<^verbatim>\<open>KeyError\<close>, before anything is fitted or written; the
  function prints the generic line \<^verbatim>\<open>Error training classification model\<close>, returns
  \<^verbatim>\<open>None\<close> and leaves every file as it was, so no model and no artifact is produced.
\<close>

theorem empty_input_reported_generically:
  assumes "fs w path = Some (JsonArray [])"
  shows "train_body lib w path = (w, Inl KeyError)
         \<and> train_linear_svc_model lib w path
             = (print ''Error training classification model'' w, Inr ())
         \<and> fs (fst (train_linear_svc_model lib w path)) = fs w"
proof -
  have sp: "training_split lib w path = Inl KeyError"
    using assms by (rule training_split_empty)
  have tb: "train_body lib w path = (w, Inl KeyError)"
    unfolding train_body_def by (simp only: sp sum.case)
  have tr: "train_linear_svc_model lib w path
             = (print ''Error training classification model'' w, Inr ())"
    unfolding train_linear_svc_model_def tb by simp
  show ?thesis using tb tr by (simp add: print_def)
qed

theorem empty_input_reported_generically_witness:
  "fs empty_data_world ''classification_data.json'' = Some (JsonArray [])
   \<and> train_linear_svc_model example_numerics empty_data_world ''classification_data.json''
       = (print ''Error training classification model'' empty_data_world, Inr ())
   \<and> fs (fst (train_linear_svc_model example_numerics empty_data_world
                 ''classification_data.json'')) ''classification.model'' = None
   \<and> fs (fst (train_linear_svc_model example_numerics empty_data_world
                 ''classification_data.json'')) ''model_vectorizer.pickle'' = None"
proof -
  have d: "fs empty_data_world ''classification_data.json'' = Some (JsonArray [])"
    by (simp add: empty_data_world_def)
  have n: "fs empty_data_world ''classification.model'' = None"
    "fs empty_data_world ''model_vectorizer.pickle'' = None"
    by (simp_all add: empty_data_world_def)
  show ?thesis
    using empty_input_reported_generically [OF d, of example_numerics] d n
    by (simp add: print_def)
qed

text \<open>
  C8 (the split), as stated: the trainer splits the examples three quarters to one
  quarter under a fixed seed, and exposes the ratio and the seed as configuration.
  The function takes the path of the data and nothing else, and the call in its body is
  \<^verbatim>\<open>train_test_split(df['utterance'], df['intent'], random_state=0)\<close>: the seed is the
  literal 0 and no size is passed. So nothing a caller supplies changes either. What
  the generator would draw for any other seed has no effect on the function, whatever
  the libraries, the files and the path are; and under the example numerics, wherever
  the split succeeds, the held-out part is a quarter of the examples, rounded up.
\<close>

theorem split_configuration_counterexample:
  "(\<forall>lib w path other.
      train_linear_svc_model
        (lib\<lparr>permutation := (\<lambda>seed. if seed = 0 then permutation lib 0 else other seed)\<rparr>)
        w path
      = train_linear_svc_model lib w path)
   \<and> (\<forall>w path.
        case training_split example_numerics w path of
          Inl e \<Rightarrow> True
        | Inr (X_train, X_test, y_train, y_test) \<Rightarrow>
            series_length X_test = (series_length X_train + series_length X_test + 3) div 4)"
proof (intro conjI allI)
  fix lib :: numerics and w path other
  have "train_body
          (lib\<lparr>permutation := (\<lambda>seed. if seed = 0 then permutation lib 0 else other seed)\<rparr>)
          w path = train_body lib w path"
    by (rule train_body_seed_zero) simp
  then show "train_linear_svc_model
        (lib\<lparr>permutation := (\<lambda>seed. if seed = 0 then permutation lib 0 else other seed)\<rparr>)
        w path
      = train_linear_svc_model lib w path"
    unfolding train_linear_svc_model_def by (rule arg_cong)
next
  fix w path
  show "case training_split example_numerics w path of
          Inl e \<Rightarrow> True
        | Inr (X_train, X_test, y_train, y_test) \<Rightarrow>
            series_length X_test = (series_length X_train + series_length X_test + 3) div 4"
  proof (cases "training_split example_numerics w path")
    case (Inl e)
    then show ?thesis by simp
  next
    case (Inr q)
    obtain X_train X_test y_train y_test where q: "q = (X_train, X_test, y_train, y_test)"
      by (cases q) blast
    obtain rows :: "training_example list" where
      tts: "train_test_split example_numerics 0 (try_convert_data example_numerics (map utterance rows))
              (try_convert_data example_numerics (map intent rows))
                = Inr (X_train, X_test, y_train, y_test)"
      using Inr unfolding q training_split_Inr by blast
    let ?n = "series_length (try_convert_data example_numerics (map utterance rows))"
    have lp: "length (permutation example_numerics 0 ?n) = ?n"
      by (simp add: example_numerics_def)
    have sz: "series_length X_test = n_test ?n" "series_length X_train = n_train ?n"
      using train_test_split_sizes [OF tts lp] by blast+
    have "series_length X_train + series_length X_test = ?n"
      unfolding sz by (rule n_train_plus_n_test)
    then have "series_length X_test = (series_length X_train + series_length X_test + 3) div 4"
      using sz(1) by (simp add: n_test_def)
    then show ?thesis unfolding Inr q by simp
  qed
qed

text \<open>
  C8, amended. On \<open>n\<close> examples, \<open>n\<close> at least two, the split of the trainer succeeds.
  The first \<open>ceil(n / 4)\<close> positions of the permutation drawn with the seed 0 are held
  out and the others are the training part, \<open>n - ceil(n / 4)\<close> of them, which is three
  quarters when four divides \<open>n\<close>; every position is in exactly one of the two parts, and
  the utterances and the intents are taken at the same positions, so that they stay
  paired. When the body then runs to its end, the vectorizer and the classifier it
  writes are fitted on the training part. That the generator returns a permutation of
  the positions is what is assumed of numpy.
\<close>

theorem trainer_split_partition:
  assumes data: "fs w path = Some (JsonArray rows)" and two: "2 \<le> length rows"
    and perm: "mset (permutation lib 0 (length rows)) = mset [0..<length rows]"
  shows "\<exists>X_train X_test y_train y_test tr te.
           training_split lib w path = Inr (X_train, X_test, y_train, y_test)
           \<and> te = take ((length rows + 3) div 4) (permutation lib 0 (length rows))
           \<and> tr = drop ((length rows + 3) div 4) (permutation lib 0 (length rows))
           \<and> mset (te @ tr) = mset [0..<length rows]
           \<and> X_train = series_nths (try_convert_data lib (map utterance rows)) tr
           \<and> y_train = series_nths (try_convert_data lib (map intent rows)) tr
           \<and> X_test = series_nths (try_convert_data lib (map utterance rows)) te
           \<and> y_test = series_nths (try_convert_data lib (map intent rows)) te
           \<and> series_length X_test = (length rows + 3) div 4
           \<and> series_length X_train = length rows - (length rows + 3) div 4
           \<and> series_length y_train = series_length X_train
           \<and> series_length y_test = series_length X_test
           \<and> (4 dvd length rows \<longrightarrow> 4 * series_length X_train = 3 * length rows)
           \<and> (snd (train_body lib w path) = Inr () \<longrightarrow>
                (\<exists>cv C m ind.
                   fit_transform X_train = Inr (cv, C)
                   \<and> encode_labels y_train = Some (classes m, ind)
                   \<and> fs (fst (train_body lib w path)) clf_model_vectorizer_pickle_file
                       = Some (Pickled (Vectorizer cv))
                   \<and> fs (fst (train_body lib w path)) clf_model_file
                       = Some (Pickled (Classifier m))))"
proof -
  let ?n = "length rows"
  let ?X = "try_convert_data lib (map utterance rows)"
  let ?y = "try_convert_data lib (map intent rows)"
  let ?p = "permutation lib 0 ?n"
  let ?te = "take (n_test ?n) ?p"
  let ?tr = "drop (n_test ?n) ?p"
  have lX: "series_length ?X = ?n" by (simp add: series_length_try_convert_data)
  have ly: "series_length ?y = series_length ?X"
    by (simp add: series_length_try_convert_data)
  have perm': "mset (permutation lib 0 (series_length ?X)) = mset [0..<series_length ?X]"
    unfolding lX by (rule perm)
  have two': "2 \<le> series_length ?X" unfolding lX by (rule two)
  have ne: "rows \<noteq> []" using two by auto
  have tts: "train_test_split lib 0 ?X ?y
               = Inr (series_nths ?X ?tr, series_nths ?X ?te, series_nths ?y ?tr, series_nths ?y ?te)"
    using train_test_split_permutation [OF perm' ly two'] unfolding lX .
  have split1: "training_split lib w path
               = Inr (series_nths ?X ?tr, series_nths ?X ?te, series_nths ?y ?tr, series_nths ?y ?te)"
    unfolding training_split_Inr using data ne tts by blast
  have lp: "length ?p = ?n" using mset_eq_length [OF perm] by simp
  have lte: "length ?te = n_test ?n" using n_test_le [of ?n] by (simp add: lp)
  have ltr: "length ?tr = ?n - n_test ?n" by (simp add: lp)
  have all: "mset (?te @ ?tr) = mset [0..<?n]"
    unfolding append_take_drop_id by (rule perm)
  have quarter: "4 dvd ?n \<longrightarrow> 4 * (?n - n_test ?n) = 3 * ?n"
    by (auto simp: n_test_def elim!: dvdE)
  have fitted: "snd (train_body lib w path) = Inr () \<longrightarrow>
                (\<exists>cv C m ind.
                   fit_transform (series_nths ?X ?tr) = Inr (cv, C)
                   \<and> encode_labels (series_nths ?y ?tr) = Some (classes m, ind)
                   \<and> fs (fst (train_body lib w path)) clf_model_vectorizer_pickle_file
                       = Some (Pickled (Vectorizer cv))
                   \<and> fs (fst (train_body lib w path)) clf_model_file
                       = Some (Pickled (Classifier m)))"
  proof
    assume ok: "snd (train_body lib w path) = Inr ()"
    show "\<exists>cv C m ind.
                   fit_transform (series_nths ?X ?tr) = Inr (cv, C)
                   \<and> encode_labels (series_nths ?y ?tr) = Some (classes m, ind)
                   \<and> fs (fst (train_body lib w path)) clf_model_vectorizer_pickle_file
                       = Some (Pickled (Vectorizer cv))
                   \<and> fs (fst (train_body lib w path)) clf_model_file
                       = Some (Pickled (Classifier m))"
    proof (rule classify_after_training [OF ok])
      fix cv m X_train X_test y_train y_test
      assume a: "fs (fst (train_body lib w path)) clf_model_vectorizer_pickle_file
                   = Some (Pickled (Vectorizer cv))"
        and b: "fs (fst (train_body lib w path)) clf_model_file = Some (Pickled (Classifier m))"
        and s: "training_split lib w path = Inr (X_train, X_test, y_train, y_test)"
        and f: "\<exists>C. fit_transform X_train = Inr (cv, C)"
        and e: "\<exists>ind. encode_labels y_train = Some (classes m, ind)"
      have "X_train = series_nths ?X ?tr" and "y_train = series_nths ?y ?tr"
        using s split1 by simp_all
      then show ?thesis using a b f e by blast
    qed
  qed
  let ?nt = "(length rows + 3) div 4"
  have nt: "n_test ?n = ?nt" by (simp add: n_test_def)
  show ?thesis
  proof (intro exI conjI)
    show "training_split lib w path
            = Inr (series_nths ?X (drop ?nt ?p), series_nths ?X (take ?nt ?p),
                   series_nths ?y (drop ?nt ?p), series_nths ?y (take ?nt ?p))"
      using split1 unfolding nt .
    show "take ?nt ?p = take ?nt ?p" by (rule refl)
    show "drop ?nt ?p = drop ?nt ?p" by (rule refl)
    show "mset (take ?nt ?p @ drop ?nt ?p) = mset [0..<?n]" using all unfolding nt .
    show "series_nths ?X (drop ?nt ?p) = series_nths ?X (drop ?nt ?p)" by (rule refl)
    show "series_nths ?y (drop ?nt ?p) = series_nths ?y (drop ?nt ?p)" by (rule refl)
    show "series_nths ?X (take ?nt ?p) = series_nths ?X (take ?nt ?p)" by (rule refl)
    show "series_nths ?y (take ?nt ?p) = series_nths ?y (take ?nt ?p)" by (rule refl)
    show "series_length (series_nths ?X (take ?nt ?p)) = ?nt"
      using lte unfolding nt by (simp only: series_length_nths)
    show "series_length (series_nths ?X (drop ?nt ?p)) = ?n - ?nt"
      using ltr unfolding nt by (simp only: series_length_nths)
    show "series_length (series_nths ?y (drop ?nt ?p))
            = series_length (series_nths ?X (drop ?nt ?p))"
      by (simp only: series_length_nths)
    show "series_length (series_nths ?y (take ?nt ?p))
            = series_length (series_nths ?X (take ?nt ?p))"
      by (simp only: series_length_nths)
    show "4 dvd ?n \<longrightarrow> 4 * series_length (series_nths ?X (drop ?nt ?p)) = 3 * ?n"
      using quarter ltr unfolding nt by (simp only: series_length_nths)
    show "snd (train_body lib w path) = Inr () \<longrightarrow>
                (\<exists>cv C m ind.
                   fit_transform (series_nths ?X (drop ?nt ?p)) = Inr (cv, C)
                   \<and> encode_labels (series_nths ?y (drop ?nt ?p)) = Some (classes m, ind)
                   \<and> fs (fst (train_body lib w path)) clf_model_vectorizer_pickle_file
                       = Some (Pickled (Vectorizer cv))
                   \<and> fs (fst (train_body lib w path)) clf_model_file
                       = Some (Pickled (Classifier m)))"
      using fitted unfolding nt .
  qed
qed

theorem trainer_split_partition_witness:
  "fs notebook_world ''classification_data.json'' = Some (JsonArray classification_data)
   \<and> length classification_data = 7
   \<and> mset (permutation example_numerics 0 (length classification_data))
       = mset [0..<length classification_data]
   \<and> snd (train_body example_numerics notebook_world ''classification_data.json'') = Inr ()
   \<and> (\<exists>X_train X_test y_train y_test.
         training_split example_numerics notebook_world ''classification_data.json''
           = Inr (X_train, X_test, y_train, y_test)
         \<and> series_length X_test = 2 \<and> series_length X_train = 5
         \<and> series_length y_train = 5 \<and> series_length y_test = 2
         \<and> (\<exists>cv C m ind.
              fit_transform X_train = Inr (cv, C)
              \<and> encode_labels y_train = Some (classes m, ind)
              \<and> fs (fst (train_body example_numerics notebook_world ''classification_data.json''))
                    clf_model_file = Some (Pickled (Classifier m))))"
proof -
  have n: "length classification_data = 7"
    by (simp add: classification_data_def)
  have p: "mset (permutation example_numerics 0 (length classification_data))
             = mset [0..<length classification_data]"
    by (simp add: example_numerics_def)
  have t: "2 \<le> length classification_data" unfolding n by simp
  have a: "(length classification_data + 3) div 4 = 2" unfolding n by simp
  have b: "length classification_data - 2 = 5" unfolding n by simp
  have "\<exists>X_train X_test y_train y_test.
         training_split example_numerics notebook_world ''classification_data.json''
           = Inr (X_train, X_test, y_train, y_test)
         \<and> series_length X_test = 2 \<and> series_length X_train = 5
         \<and> series_length y_train = 5 \<and> series_length y_test = 2
         \<and> (\<exists>cv C m ind.
              fit_transform X_train = Inr (cv, C)
              \<and> encode_labels y_train = Some (classes m, ind)
              \<and> fs (fst (train_body example_numerics notebook_world ''classification_data.json''))
                    clf_model_file = Some (Pickled (Classifier m)))"
    using trainer_split_partition [OF notebook_data_file t p] notebook_training_succeeds
    unfolding a b by metis
  then show ?thesis using notebook_data_file n p notebook_training_succeeds by blast
qed

text \<open>
  C9 (no exception leaves the trainer). \<^verbatim>\<open>train_linear_svc_model\<close> returns \<^verbatim>\<open>None\<close>
  in every world, for every path and whatever the numeric parts compute; no exception
  reaches the caller. What tells a run that succeeded from one that failed is the text
  printed, the three lines of success or the one line of failure (and the files written).
\<close>

theorem training_never_raises:
  "snd (train_linear_svc_model lib w path) = Inr ()
   \<and> (stdout (fst (train_linear_svc_model lib w path))
         = stdout w @ [''------LinearSVC CLASSIFICATION TRAINING COMPLETED------'',
                       ''Vectorizer model saved to the current directory'',
                       ''Classification model saved to the current directory'']
      \<or> stdout (fst (train_linear_svc_model lib w path))
         = stdout w @ [''Error training classification model''])"
proof (cases "snd (train_body lib w path)")
  case (Inl e)
  have r: "train_linear_svc_model lib w path
          = (print ''Error training classification model'' (fst (train_body lib w path)), Inr ())"
    using Inl by (rule train_result_failure)
  have "stdout (fst (train_body lib w path)) = stdout w"
    using Inl by (rule train_body_failure_stdout)
  then show ?thesis unfolding r by (simp add: print_def)
next
  case (Inr u)
  then have ok: "snd (train_body lib w path) = Inr ()" by simp
  have r: "train_linear_svc_model lib w path = (fst (train_body lib w path), Inr ())"
    using ok by (rule train_result_success)
  have "stdout (fst (train_body lib w path))
         = stdout w @ [''------LinearSVC CLASSIFICATION TRAINING COMPLETED------'',
                       ''Vectorizer model saved to the current directory'',
                       ''Classification model saved to the current directory'']"
    by (rule train_body_success [OF ok])
  then show ?thesis unfolding r by simp
qed

theorem training_never_raises_witness:
  "snd (train_linear_svc_model example_numerics notebook_world ''classification_data.json'') = Inr ()
   \<and> snd (train_linear_svc_model example_numerics empty_data_world ''classification_data.json'')
       = Inr ()
   \<and> snd (train_linear_svc_model example_numerics notebook_world ''no_such_file.json'') = Inr ()"
  using training_never_raises [of example_numerics notebook_world "''classification_data.json''"]
    training_never_raises [of example_numerics empty_data_world "''classification_data.json''"]
    training_never_raises [of example_numerics notebook_world "''no_such_file.json''"]
  by blast




end
